theory Spec2Isabelle
  imports Main
begin

section \<open>JavaScript values and the object store\<close>

text \<open>
  The gateway of \<^verbatim>\<open>src/lib/settings/Gateway.js\<close> and the schema folder of
  \<^verbatim>\<open>Schema.js\<close> work on mutable JavaScript objects that are shared: the object returned by
  \<^verbatim>\<open>Gateway#defaults\<close> is the schema's own \<^verbatim>\<open>defaults\<close> object, and a cached entry is
  mutated in place. Objects therefore live in a store and values refer to them by address.
  Numbers are integers (no NaN, no fractions).
\<close>

datatype val =
    VUndefined
  | VNull
  | VBool bool
  | VNum int
  | VStr string
  | VRef nat

text \<open>
  An object carries the name of its constructor (\<^verbatim>\<open>obj.constructor.name\<close>, read by
  \<^verbatim>\<open>Gateway#_resolveGuild\<close>) and its own enumerable properties in insertion order.
\<close>

datatype obj =
    Obj string "(string \<times> val) list"
  | Arr "val list"

type_synonym heap = "obj list"

text \<open>What a provider keeps durably, and what \<^verbatim>\<open>JSON.stringify\<close> produces: a value without sharing.\<close>

datatype json =
    JNull
  | JBool bool
  | JNum int
  | JStr string
  | JArr "json list"
  | JObj "(string \<times> json) list"

text \<open>
  Everything the code can throw. \<^verbatim>\<open>Thrown\<close> is \<^verbatim>\<open>throw `...`\<close> of a string,
  \<^verbatim>\<open>ErrorObj\<close> is \<^verbatim>\<open>throw new Error(...)\<close>. The three messages that interpolate a list or a
  value keep their parts:
  \<^verbatim>\<open>ChooseKey ks\<close> is \<^verbatim>\<open>Please, choose one of the following keys: '${ks.join("', '")}'\<close>,
  \<^verbatim>\<open>ValueExists v p\<close> is \<^verbatim>\<open>The value ${v} for the key ${p} already exists.\<close> and
  \<^verbatim>\<open>ValueMissing v p\<close> is \<^verbatim>\<open>The value ${v} for the key ${p} does not exist.\<close>
  \<^verbatim>\<open>LanguageKey k\<close> is the value of \<^verbatim>\<open>guild.language.get(k)\<close>; \<^verbatim>\<open>Rejected\<close> is a failure of
  a collaborator the caller supplies (target validation, a field's parser).
  The text of a TypeError that the engine raises (reading a property of \<^verbatim>\<open>undefined\<close>,
  calling what is not a function) describes the failure; engines word it differently.
  \<^verbatim>\<open>Unmodelled\<close> marks JavaScript behaviour outside this development (index properties of
  strings and arrays, string methods, number parsing of strings).
\<close>

datatype error =
    TypeError string
  | ReferenceError string
  | ErrorObj string
  | Thrown string
  | ChooseKey "string list"
  | ValueExists val string
  | ValueMissing val string
  | LanguageKey string
  | Rejected string
  | Unmodelled string

subsection \<open>Property access\<close>

fun lookup :: "'k \<Rightarrow> ('k \<times> 'a) list \<Rightarrow> 'a option" where
  "lookup k [] = None"
| "lookup k ((k', v) # kvs) = (if k = k' then Some v else lookup k kvs)"

text \<open>\<^verbatim>\<open>o[k] = v\<close> on own properties: an existing key keeps its place, a new one goes last.\<close>

fun assign :: "'k \<Rightarrow> 'a \<Rightarrow> ('k \<times> 'a) list \<Rightarrow> ('k \<times> 'a) list" where
  "assign k v [] = [(k, v)]"
| "assign k v ((k', v') # kvs) = (if k = k' then (k, v) # kvs else (k', v') # assign k v kvs)"

fun remove :: "'k \<Rightarrow> ('k \<times> 'a) list \<Rightarrow> ('k \<times> 'a) list" where
  "remove k [] = []"
| "remove k ((k', v') # kvs) = (if k = k' then kvs else (k', v') # remove k kvs)"

text \<open>
  Strings and arrays have index properties and \<^verbatim>\<open>length\<close>; those are not modelled. Any other
  property of a string or an array is read as \<^verbatim>\<open>undefined\<close> (methods are called through
  the functions below, properties inherited from \<^verbatim>\<open>Object.prototype\<close> are not modelled).
\<close>

definition index_like :: "string \<Rightarrow> bool" where
  "index_like k = (k = ''length'' \<or> (k \<noteq> [] \<and> list_all (\<lambda>c. c \<in> set ''0123456789'') k))"

text \<open>
  \<^verbatim>\<open>v[k]\<close>. Reading a property of \<^verbatim>\<open>null\<close> or \<^verbatim>\<open>undefined\<close> throws a TypeError; a number or
  a boolean has no own property.
\<close>

definition get_prop :: "heap \<Rightarrow> val \<Rightarrow> string \<Rightarrow> error + val" where
  "get_prop h v k =
     (case v of
        VUndefined \<Rightarrow> Inl (TypeError (''Cannot read property '' @ k @ '' of undefined''))
      | VNull \<Rightarrow> Inl (TypeError (''Cannot read property '' @ k @ '' of null''))
      | VBool _ \<Rightarrow> Inr VUndefined
      | VNum _ \<Rightarrow> Inr VUndefined
      | VStr _ \<Rightarrow> if index_like k then Inl (Unmodelled ''index of a string'') else Inr VUndefined
      | VRef a \<Rightarrow>
          (if a < length h then
             (case h ! a of
                Obj _ fs \<Rightarrow> (case lookup k fs of None \<Rightarrow> Inr VUndefined | Some x \<Rightarrow> Inr x)
              | Arr _ \<Rightarrow>
                  if index_like k then Inl (Unmodelled ''index of an array'') else Inr VUndefined)
           else Inl (Unmodelled ''dangling reference'')))"

text \<open>
  \<^verbatim>\<open>v[k] = x\<close> in strict mode (class bodies are strict): assigning to a property of a primitive
  throws a TypeError.
\<close>

definition set_prop :: "heap \<Rightarrow> val \<Rightarrow> string \<Rightarrow> val \<Rightarrow> error + heap" where
  "set_prop h v k x =
     (case v of
        VUndefined \<Rightarrow> Inl (TypeError (''Cannot set property '' @ k @ '' of undefined''))
      | VNull \<Rightarrow> Inl (TypeError (''Cannot set property '' @ k @ '' of null''))
      | VBool _ \<Rightarrow> Inl (TypeError (''Cannot create property '' @ k @ '' on boolean''))
      | VNum _ \<Rightarrow> Inl (TypeError (''Cannot create property '' @ k @ '' on number''))
      | VStr _ \<Rightarrow> Inl (TypeError (''Cannot create property '' @ k @ '' on string''))
      | VRef a \<Rightarrow>
          (if a < length h then
             (case h ! a of
                Obj c fs \<Rightarrow> Inr (h[a := Obj c (assign k x fs)])
              | Arr _ \<Rightarrow> Inl (Unmodelled ''property of an array''))
           else Inl (Unmodelled ''dangling reference'')))"

text \<open>\<^verbatim>\<open>delete v[k]\<close>: a TypeError on \<^verbatim>\<open>null\<close> and \<^verbatim>\<open>undefined\<close>, nothing to do on a primitive.\<close>

definition delete_prop :: "heap \<Rightarrow> val \<Rightarrow> string \<Rightarrow> error + heap" where
  "delete_prop h v k =
     (case v of
        VUndefined \<Rightarrow> Inl (TypeError ''Cannot convert undefined or null to object'')
      | VNull \<Rightarrow> Inl (TypeError ''Cannot convert undefined or null to object'')
      | VBool _ \<Rightarrow> Inr h
      | VNum _ \<Rightarrow> Inr h
      | VStr _ \<Rightarrow> if index_like k then Inl (Unmodelled ''index of a string'') else Inr h
      | VRef a \<Rightarrow>
          (if a < length h then
             (case h ! a of
                Obj c fs \<Rightarrow> Inr (h[a := Obj c (remove k fs)])
              | Arr _ \<Rightarrow> if index_like k then Inl (Unmodelled ''index of an array'') else Inr h)
           else Inl (Unmodelled ''dangling reference'')))"

text \<open>\<^verbatim>\<open>{...}\<close> and \<^verbatim>\<open>[...]\<close> literals: a new object at the next free address.\<close>

definition alloc :: "heap \<Rightarrow> obj \<Rightarrow> val \<times> heap" where
  "alloc h ob = (VRef (length h), h @ [ob])"

definition truthy :: "val \<Rightarrow> bool" where
  "truthy v =
     (case v of
        VUndefined \<Rightarrow> False
      | VNull \<Rightarrow> False
      | VBool b \<Rightarrow> b
      | VNum n \<Rightarrow> n \<noteq> 0
      | VStr s \<Rightarrow> s \<noteq> []
      | VRef _ \<Rightarrow> True)"

text \<open>\<^verbatim>\<open>output && output.id ? output.id : output\<close>, the unwrapping every operation applies.\<close>

definition unwrap_id :: "heap \<Rightarrow> val \<Rightarrow> error + val" where
  "unwrap_id h output =
     (if truthy output then
        (case get_prop h output ''id'' of
           Inl e \<Rightarrow> Inl e
         | Inr i \<Rightarrow> if truthy i then Inr i else Inr output)
      else Inr output)"

subsection \<open>JSON\<close>

text \<open>
  \<^verbatim>\<open>JSON.stringify\<close>: properties whose value is \<^verbatim>\<open>undefined\<close> are left out, an \<^verbatim>\<open>undefined\<close>
  array element becomes \<^verbatim>\<open>null\<close>. The first argument bounds the nesting depth; with the
  number of objects in the store as the bound, running out means a circular structure
  (a TypeError in JavaScript), the result \<^verbatim>\<open>None\<close> here.
\<close>

fun those_kvs :: "(string \<times> 'a option) list \<Rightarrow> (string \<times> 'a) list option" where
  "those_kvs [] = Some []"
| "those_kvs ((k, None) # _) = None"
| "those_kvs ((k, Some x) # kvs) = map_option ((#) (k, x)) (those_kvs kvs)"

fun stringify :: "nat \<Rightarrow> heap \<Rightarrow> val \<Rightarrow> json option" where
  "stringify n h VUndefined = Some JNull"
| "stringify n h VNull = Some JNull"
| "stringify n h (VBool b) = Some (JBool b)"
| "stringify n h (VNum i) = Some (JNum i)"
| "stringify n h (VStr s) = Some (JStr s)"
| "stringify 0 h (VRef a) = None"
| "stringify (Suc n) h (VRef a) =
     (if a < length h then
        (case h ! a of
           Obj _ fs \<Rightarrow>
             map_option JObj
               (those_kvs (map (\<lambda>(k, v). (k, stringify n h v)) (filter (\<lambda>(k, v). v \<noteq> VUndefined) fs)))
         | Arr xs \<Rightarrow> map_option JArr (those (map (stringify n h) xs)))
      else None)"

definition to_json :: "heap \<Rightarrow> val \<Rightarrow> error + json" where
  "to_json h v =
     (case stringify (length h) h v of
        None \<Rightarrow> Inl (TypeError ''Converting circular structure to JSON'')
      | Some j \<Rightarrow> Inr j)"

text \<open>\<^verbatim>\<open>JSON.parse\<close>: every object and array of the text is a new object of the store.\<close>

fun parse_json :: "json \<Rightarrow> heap \<Rightarrow> val \<times> heap"
  and parse_fields :: "(string \<times> json) list \<Rightarrow> heap \<Rightarrow> (string \<times> val) list \<times> heap"
  and parse_elems :: "json list \<Rightarrow> heap \<Rightarrow> val list \<times> heap" where
  "parse_json JNull h = (VNull, h)"
| "parse_json (JBool b) h = (VBool b, h)"
| "parse_json (JNum i) h = (VNum i, h)"
| "parse_json (JStr s) h = (VStr s, h)"
| "parse_json (JArr js) h = (case parse_elems js h of (xs, h') \<Rightarrow> alloc h' (Arr xs))"
| "parse_json (JObj kjs) h = (case parse_fields kjs h of (fs, h') \<Rightarrow> alloc h' (Obj ''Object'' fs))"
| "parse_fields [] h = ([], h)"
| "parse_fields ((k, j) # kjs) h =
     (case parse_json j h of (v, h') \<Rightarrow>
        (case parse_fields kjs h' of (fs, h'') \<Rightarrow> ((k, v) # fs, h'')))"
| "parse_elems [] h = ([], h)"
| "parse_elems (j # js) h =
     (case parse_json j h of (v, h') \<Rightarrow>
        (case parse_elems js h' of (xs, h'') \<Rightarrow> (v # xs, h'')))"

text \<open>\<^verbatim>\<open>JSON.parse(JSON.stringify(v))\<close>, the deep clone of the gateway.\<close>

definition json_clone :: "heap \<Rightarrow> val \<Rightarrow> error + (val \<times> heap)" where
  "json_clone h v =
     (case to_json h v of
        Inl e \<Rightarrow> Inl e
      | Inr j \<Rightarrow> Inr (parse_json j h))"

subsection \<open>Strings\<close>

text \<open>\<^verbatim>\<open>key.split('.')\<close>: the empty string splits into one empty segment.\<close>

fun split_dot :: "string \<Rightarrow> string list" where
  "split_dot [] = [[]]"
| "split_dot (c # cs) =
     (if c = CHR ''.'' then [] # split_dot cs
      else (case split_dot cs of
              [] \<Rightarrow> [[c]]
            | r # rs \<Rightarrow> (c # r) # rs))"

text \<open>\<^verbatim>\<open>segments.join('.')\<close>.\<close>

fun join_dot :: "string list \<Rightarrow> string" where
  "join_dot [] = []"
| "join_dot [s] = s"
| "join_dot (s # t # ts) = s @ ''.'' @ join_dot (t # ts)"

text \<open>A name between single quotes, as the messages of the code write it.\<close>

definition quoted :: "string \<Rightarrow> string" where
  "quoted s = [CHR 0x27] @ s @ [CHR 0x27]"

section \<open>The schema tree\<close>

text \<open>
  Modelled from the spec: \<^verbatim>\<open>SchemaPiece.js\<close> is not among the sources. A Field has a name, a
  dotted path, a type tag, an array flag, a default value, min/max bounds and a configurable
  flag; these are the attributes the gateway and the folder read.
\<close>

record piece =
  piece_path :: string
  piece_key :: string
  piece_type :: string
  piece_array :: bool
  piece_default :: val
  piece_min :: val
  piece_max :: val
  piece_configurable :: bool

text \<open>
  A \<^verbatim>\<open>Schema\<close> instance (a folder): its \<^verbatim>\<open>path\<close>, the address of its \<^verbatim>\<open>defaults\<close> object,
  the \<^verbatim>\<open>keys\<close> set, the \<^verbatim>\<open>keyArray\<close>, and the children attached as \<^verbatim>\<open>this[key]\<close>, in the
  order they were attached. Its \<^verbatim>\<open>type\<close> is the constant \<^verbatim>\<open>'Folder'\<close>.
\<close>

datatype folder =
    Folder (folder_path: string) (folder_defaults: nat) (folder_keys: "string set")
      (folder_keyArray: "string list") (folder_children: "(string \<times> node) list")
and node =
    SubFolder folder
  | Field piece

definition node_type :: "node \<Rightarrow> string" where
  "node_type n = (case n of SubFolder _ \<Rightarrow> ''Folder'' | Field p \<Rightarrow> piece_type p)"

section \<open>The gateway\<close>

text \<open>
  The state a gateway operation can read or change, after \<^verbatim>\<open>init\<close>: the object store, the
  schema, the gateway's table in the cache and in the provider, the \<^verbatim>\<open>sql\<close> flag (always
  \<^verbatim>\<open>false\<close> for this class) and the schema file last written.

  Modelled from the spec: the cache and the provider are external. The cache is the
  in-process mirror (\<^verbatim>\<open>get\<close>, \<^verbatim>\<open>set\<close>, \<^verbatim>\<open>create\<close>, \<^verbatim>\<open>delete\<close> by id) that hands back the object
  it was given; the provider is durable, so it keeps the JSON text of a document, and
  \<^verbatim>\<open>create\<close>, \<^verbatim>\<open>replace\<close> and \<^verbatim>\<open>update\<close> each rewrite the whole document. Neither fails.

  The collaborators the caller supplies are fields too: \<^verbatim>\<open>validate\<close> (the target resolution
  function), \<^verbatim>\<open>parse\<close> (the parser of a Field, \<^verbatim>\<open>path.parse(value, guild)\<close>, which returns an
  object with a \<^verbatim>\<open>data\<close> property), \<^verbatim>\<open>guilds\<close> (\<^verbatim>\<open>client.guilds\<close>), \<^verbatim>\<open>types\<close>
  (\<^verbatim>\<open>client.settings.types\<close>) and \<^verbatim>\<open>localeCompare\<close> (\<^verbatim>\<open>a.localeCompare(b)\<close> of the host's
  locale: negative, zero or positive).
\<close>

record gateway =
  heap :: heap
  schema :: folder
  cache_table :: "(val \<times> val) list"
  provider_table :: "(val \<times> json) list"
  sql :: bool
  schemaFile :: "json option"
  validate :: "heap \<Rightarrow> val \<Rightarrow> error + val"
  parse :: "piece \<Rightarrow> val \<Rightarrow> val \<Rightarrow> heap \<Rightarrow> (error + val) \<times> heap"
  guilds :: "(string \<times> val) list"
  types :: "string list"
  localeCompare :: "string \<Rightarrow> string \<Rightarrow> int"

text \<open>
  An operation runs on the state and either returns or throws (an \<^verbatim>\<open>async\<close> method: resolves
  or rejects); what it changed before it threw stays changed. A method whose name starts
  with an underscore, such as \<^verbatim>\<open>_reset\<close>, is \<open>priv_reset\<close> here.
\<close>

type_synonym 'a m = "gateway \<Rightarrow> (error + 'a) \<times> gateway"

definition ret :: "'a \<Rightarrow> 'a m" where
  "ret x g = (Inr x, g)"

definition throw :: "error \<Rightarrow> 'a m" where
  "throw e g = (Inl e, g)"

definition bnd :: "'a m \<Rightarrow> ('a \<Rightarrow> 'b m) \<Rightarrow> 'b m" where
  "bnd f k g = (case f g of (Inl e, g') \<Rightarrow> (Inl e, g') | (Inr x, g') \<Rightarrow> k x g')"

definition getp :: "val \<Rightarrow> string \<Rightarrow> val m" where
  "getp v k g = (get_prop (heap g) v k, g)"

definition setp :: "val \<Rightarrow> string \<Rightarrow> val \<Rightarrow> unit m" where
  "setp v k x g =
     (case set_prop (heap g) v k x of
        Inl e \<Rightarrow> (Inl e, g)
      | Inr h \<Rightarrow> (Inr (), g\<lparr>heap := h\<rparr>))"

definition delp :: "val \<Rightarrow> string \<Rightarrow> unit m" where
  "delp v k g =
     (case delete_prop (heap g) v k of
        Inl e \<Rightarrow> (Inl e, g)
      | Inr h \<Rightarrow> (Inr (), g\<lparr>heap := h\<rparr>))"

definition new_obj :: "obj \<Rightarrow> val m" where
  "new_obj ob g = (case alloc (heap g) ob of (v, h) \<Rightarrow> (Inr v, g\<lparr>heap := h\<rparr>))"

subsection \<open>The cache and the provider\<close>

text \<open>
  A table of the cache or of the provider is a list of entries by id, read and written with
  \<open>lookup\<close>, \<open>assign\<close> and \<open>remove\<close>.
\<close>

text \<open>\<^verbatim>\<open>this.cache.get(this.type, id)\<close>: the cached object, or \<^verbatim>\<open>undefined\<close>.\<close>

definition cache_get :: "val \<Rightarrow> val m" where
  "cache_get i g = (Inr (case lookup i (cache_table g) of None \<Rightarrow> VUndefined | Some d \<Rightarrow> d), g)"

text \<open>\<^verbatim>\<open>this.cache.set(this.type, id, doc)\<close> and \<^verbatim>\<open>this.cache.create(this.type, id, doc)\<close>.\<close>

definition cache_set :: "val \<Rightarrow> val \<Rightarrow> unit m" where
  "cache_set i d g = (Inr (), g\<lparr>cache_table := assign i d (cache_table g)\<rparr>)"

definition cache_delete :: "val \<Rightarrow> unit m" where
  "cache_delete i g = (Inr (), g\<lparr>cache_table := remove i (cache_table g)\<rparr>)"

text \<open>
  \<^verbatim>\<open>provider.create\<close>, \<^verbatim>\<open>provider.replace\<close> and \<^verbatim>\<open>provider.update\<close>: the document is serialised
  and stored under the id, whole.
\<close>

definition provider_write :: "val \<Rightarrow> val \<Rightarrow> unit m" where
  "provider_write i d g =
     (case to_json (heap g) d of
        Inl e \<Rightarrow> (Inl e, g)
      | Inr j \<Rightarrow> (Inr (), g\<lparr>provider_table := assign i j (provider_table g)\<rparr>))"

definition provider_delete :: "val \<Rightarrow> unit m" where
  "provider_delete i g = (Inr (), g\<lparr>provider_table := remove i (provider_table g)\<rparr>)"

text \<open>
  A stored document read back: new objects, and the document carries its own id
  (\<^verbatim>\<open>data[i].id\<close>).
\<close>

definition provider_load :: "val \<Rightarrow> json \<Rightarrow> val m" where
  "provider_load i j g =
     (case parse_json j (heap g) of
        (d, h) \<Rightarrow>
          (case d of
             VRef a \<Rightarrow>
               (case set_prop h d ''id'' i of
                  Inl _ \<Rightarrow> (Inr d, g\<lparr>heap := h\<rparr>)
                | Inr h' \<Rightarrow> (Inr d, g\<lparr>heap := h'\<rparr>))
           | _ \<Rightarrow> (Inr d, g\<lparr>heap := h\<rparr>)))"

text \<open>\<^verbatim>\<open>provider.getAll(this.type)\<close>.\<close>

fun provider_loadAll :: "(val \<times> json) list \<Rightarrow> val list m" where
  "provider_loadAll [] = ret []"
| "provider_loadAll ((i, j) # rest) =
     bnd (provider_load i j) (\<lambda>d. bnd (provider_loadAll rest) (\<lambda>ds. ret (d # ds)))"

definition provider_getAll :: "val list m" where
  "provider_getAll g = provider_loadAll (provider_table g) g"

text \<open>\<^verbatim>\<open>provider.get(this.type, id)\<close>: \<^verbatim>\<open>null\<close> when nothing is stored.\<close>

definition provider_get :: "val \<Rightarrow> val m" where
  "provider_get i g =
     (case lookup i (provider_table g) of
        None \<Rightarrow> (Inr VNull, g)
      | Some j \<Rightarrow> provider_load i j g)"

subsection \<open>Path resolution\<close>

text \<open>
  The loop of \<^verbatim>\<open>Gateway#getPath\<close>, at index \<^verbatim>\<open>i = length seen\<close>: \<^verbatim>\<open>seen\<close> is
  \<^verbatim>\<open>route.slice(0, i)\<close>, the second argument the segments from \<^verbatim>\<open>route[i]\<close> on. A Field has no
  \<^verbatim>\<open>keys\<close>, so \<^verbatim>\<open>path.keys.has\<close> on it is a TypeError, as is any step from a key without an
  attached child.
\<close>

fun getPath_loop :: "string list \<Rightarrow> string list \<Rightarrow> node \<Rightarrow> error + node" where
  "getPath_loop seen [] path = Inr path"
| "getPath_loop seen (r # rest) (Field p) =
     Inl (TypeError ''Cannot read property has of undefined'')"
| "getPath_loop seen (r # rest) (SubFolder f) =
     (if r \<notin> folder_keys f then
        Inl (Thrown (''The key '' @ join_dot seen @ '' does not exist in the current schema.''))
      else
        (case lookup r (folder_children f) of
           None \<Rightarrow> Inl (TypeError ''Cannot read property of undefined'')
         | Some child \<Rightarrow> getPath_loop (seen @ [r]) rest child))"

text \<open>
  \<^verbatim>\<open>Gateway#getPath(key = null, avoidUnconfigurable = false)\<close>. With \<^verbatim>\<open>key\<close> null (or
  undefined, which the default turns into null) the first statement reads \<^verbatim>\<open>path\<close>, which
  is declared by \<^verbatim>\<open>let\<close> further down in the same block: a ReferenceError.
  \<^verbatim>\<open>Object.keys(path)\<close> of a folder are its attached children. (No field has the type
  \<^verbatim>\<open>'Folder'\<close>: \<^verbatim>\<open>_patch\<close> builds a folder for that tag and \<^verbatim>\<open>addKey\<close> lower-cases the type.)
\<close>

definition getPath :: "gateway \<Rightarrow> val \<Rightarrow> bool \<Rightarrow> error + (piece \<times> string list)" where
  "getPath g key avoidUnconfigurable =
     (case key of
        VUndefined \<Rightarrow> Inl (ReferenceError ''path'')
      | VNull \<Rightarrow> Inl (ReferenceError ''path'')
      | VStr s \<Rightarrow>
          (let route = split_dot s in
           case getPath_loop [] route (SubFolder (schema g)) of
             Inl e \<Rightarrow> Inl e
           | Inr (SubFolder f) \<Rightarrow> Inl (ChooseKey (map fst (folder_children f)))
           | Inr (Field p) \<Rightarrow>
               if piece_type p = ''Folder'' then Inl (Unmodelled ''Object.keys of a SchemaPiece'')
               else if avoidUnconfigurable \<and> \<not> piece_configurable p then
                 Inl (Thrown (''The key '' @ piece_path p @ '' is not configureable in the current schema.''))
               else Inr (p, route))
      | _ \<Rightarrow> Inl (TypeError (''The value for the argument '' @ quoted ''key'' @ '' must be a string.'')))"

subsection \<open>Entries\<close>

text \<open>
  \<^verbatim>\<open>get defaults() { return Object.assign(this.schema.defaults, { default: true }); }\<close>:
  \<^verbatim>\<open>Object.assign\<close> writes into its first argument and returns it, so the marker is set on the
  schema's own \<^verbatim>\<open>defaults\<close> object and that same object is the result.
\<close>

definition defaults :: "val m" where
  "defaults g =
     bnd (setp (VRef (folder_defaults (schema g))) ''default'' (VBool True))
       (\<lambda>_. ret (VRef (folder_defaults (schema g)))) g"

text \<open>\<^verbatim>\<open>Gateway#getEntry\<close>; the getter runs only when the left operand of \<^verbatim>\<open>||\<close> is falsy.\<close>

definition getEntry :: "val \<Rightarrow> val m" where
  "getEntry input =
     (if input = VStr ''default'' then defaults
      else bnd (cache_get input) (\<lambda>d. if truthy d then ret d else defaults))"

text \<open>\<^verbatim>\<open>Gateway#fetchEntry\<close>.\<close>

definition fetchEntry :: "val \<Rightarrow> val m" where
  "fetchEntry input = bnd (cache_get input) (\<lambda>d. if truthy d then ret d else defaults)"

text \<open>\<^verbatim>\<open>await this.validate(x).then(output => output && output.id ? output.id : output)\<close>.\<close>

definition resolve_target :: "val \<Rightarrow> val m" where
  "resolve_target x g =
     (case validate g (heap g) x of
        Inl e \<Rightarrow> (Inl e, g)
      | Inr output \<Rightarrow> (unwrap_id (heap g) output, g))"

text \<open>
  \<^verbatim>\<open>Gateway#createEntry(input, data = this.defaults)\<close>: the default of \<^verbatim>\<open>data\<close> is taken when
  the argument is \<^verbatim>\<open>undefined\<close>, before the body runs.
\<close>

definition createEntry :: "val \<Rightarrow> val \<Rightarrow> bool m" where
  "createEntry input data0 =
     bnd (if data0 = VUndefined then defaults else ret data0) (\<lambda>data.
     bnd (resolve_target input) (\<lambda>target.
     bnd (provider_write target data) (\<lambda>_.
     bnd (cache_set target data) (\<lambda>_.
     ret True))))"

text \<open>\<^verbatim>\<open>Gateway#deleteEntry\<close>.\<close>

definition deleteEntry :: "val \<Rightarrow> bool m" where
  "deleteEntry input =
     bnd (provider_delete input) (\<lambda>_.
     bnd (cache_delete input) (\<lambda>_.
     ret True))"

text \<open>\<^verbatim>\<open>for (let i = 0; i < data.length; i++) this.cache.set(this.type, data[i].id, data[i])\<close>.\<close>

fun cache_setAll :: "val list \<Rightarrow> unit m" where
  "cache_setAll [] = ret ()"
| "cache_setAll (d # ds) =
     bnd (getp d ''id'') (\<lambda>i.
     bnd (cache_set i d) (\<lambda>_.
     cache_setAll ds))"

text \<open>
  \<^verbatim>\<open>Gateway#sync(input = null)\<close>. For an input that is not null the next statement is
  \<^verbatim>\<open>const target = await this.validate(target)...\<close>: the initialiser reads the constant it
  declares, which is a ReferenceError, so \<^verbatim>\<open>validate\<close> is not called and the statements
  after it are not reached.
\<close>

definition sync :: "val \<Rightarrow> bool m" where
  "sync input =
     (if input = VNull \<or> input = VUndefined then
        bnd provider_getAll (\<lambda>data.
        bnd (cache_setAll data) (\<lambda>_.
        ret True))
      else
        bnd (throw (ReferenceError ''target'')) (\<lambda>target.
        bnd (provider_get target) (\<lambda>data.
        bnd (cache_set target data) (\<lambda>_.
        ret True))))"

text \<open>
  \<^verbatim>\<open>guild.constructor.name\<close>: a TypeError on \<^verbatim>\<open>null\<close> and \<^verbatim>\<open>undefined\<close>.
\<close>

definition constructor_name :: "heap \<Rightarrow> val \<Rightarrow> error + string" where
  "constructor_name h v =
     (case v of
        VUndefined \<Rightarrow> Inl (TypeError ''Cannot read property constructor of undefined'')
      | VNull \<Rightarrow> Inl (TypeError ''Cannot read property constructor of null'')
      | VBool _ \<Rightarrow> Inr ''Boolean''
      | VNum _ \<Rightarrow> Inr ''Number''
      | VStr _ \<Rightarrow> Inr ''String''
      | VRef a \<Rightarrow>
          (if a < length h then
             (case h ! a of Obj c _ \<Rightarrow> Inr c | Arr _ \<Rightarrow> Inr ''Array'')
           else Inl (Unmodelled ''dangling reference'')))"

text \<open>\<^verbatim>\<open>/^\d{17,19}$/.test(s)\<close>.\<close>

definition snowflake :: "string \<Rightarrow> bool" where
  "snowflake s = (17 \<le> length s \<and> length s \<le> 19 \<and> list_all (\<lambda>c. c \<in> set ''0123456789'') s)"

text \<open>\<^verbatim>\<open>Gateway#_resolveGuild\<close>.\<close>

definition priv_resolveGuild :: "val \<Rightarrow> val m" where
  "priv_resolveGuild guild g =
     (case constructor_name (heap g) guild of
        Inl e \<Rightarrow> (Inl e, g)
      | Inr constName \<Rightarrow>
          if constName = ''Guild'' then (Inr guild, g)
          else if constName = ''TextChannel'' \<or> constName = ''VoiceChannel''
                  \<or> constName = ''Message'' \<or> constName = ''Role'' then getp guild ''guild'' g
          else
            (case guild of
               VStr s \<Rightarrow>
                 if snowflake s then
                   (Inr (case lookup s (guilds g) of None \<Rightarrow> VUndefined | Some x \<Rightarrow> x), g)
                 else (Inr VNull, g)
             | _ \<Rightarrow> (Inr VNull, g)))"

text \<open>\<^verbatim>\<open>await path.parse(value, guild)\<close>.\<close>

definition parse_field :: "piece \<Rightarrow> val \<Rightarrow> val \<Rightarrow> val m" where
  "parse_field path v guild g =
     (case parse g path v guild (heap g) of (r, h) \<Rightarrow> (r, g\<lparr>heap := h\<rparr>))"

definition resolve_path :: "val \<Rightarrow> bool \<Rightarrow> (piece \<times> string list) m" where
  "resolve_path key avoidUnconfigurable g = (getPath g key avoidUnconfigurable, g)"

definition is_string :: "val \<Rightarrow> bool" where
  "is_string v = (case v of VStr _ \<Rightarrow> True | _ \<Rightarrow> False)"

subsection \<open>Reset\<close>

text \<open>
  The loop of \<^verbatim>\<open>Gateway#_reset\<close> from index \<^verbatim>\<open>i\<close> on; the second argument is
  \<^verbatim>\<open>route.slice(i)\<close>, and the result is the value of \<^verbatim>\<open>cache\<close> after the loop.
\<close>

fun reset_loop :: "val \<Rightarrow> string list \<Rightarrow> val \<Rightarrow> val m" where
  "reset_loop cache [] parsedID = ret cache"
| "reset_loop cache (r # rest) parsedID =
     bnd (getp cache r) (\<lambda>x.
     bnd (if x = VUndefined then bnd (new_obj (Obj ''Object'' [])) (setp cache r) else ret ()) (\<lambda>_.
     if rest = [] then bnd (setp cache r parsedID) (\<lambda>_. reset_loop cache rest parsedID)
     else bnd (getp cache r) (\<lambda>next. reset_loop next rest parsedID)))"

text \<open>
  \<^verbatim>\<open>Gateway#_reset(target, route, parsed)\<close>; the result is \<^verbatim>\<open>{ result: cache, parsedID }\<close>. The
  entry is not cloned, and \<^verbatim>\<open>parsed\<close> is the parser's whole result, not its \<^verbatim>\<open>data\<close>.
\<close>

definition priv_reset :: "val \<Rightarrow> string list \<Rightarrow> val \<Rightarrow> (val \<times> val) m" where
  "priv_reset target route parsed =
     bnd (fetchEntry target) (\<lambda>cache.
     bnd (\<lambda>g. (unwrap_id (heap g) parsed, g)) (\<lambda>parsedID.
     bnd (reset_loop cache route parsedID) (\<lambda>result.
     ret (result, parsedID))))"

text \<open>\<^verbatim>\<open>Gateway#reset(target, key, guild = null, avoidUnconfigurable = false)\<close>.\<close>

definition reset :: "val \<Rightarrow> val \<Rightarrow> val \<Rightarrow> bool \<Rightarrow> (val \<times> piece) m" where
  "reset target0 key guild0 avoidUnconfigurable =
     (if \<not> is_string key then
        throw (TypeError (''The argument '' @ quoted ''key'' @ '' for Gateway#reset only accepts strings.''))
      else
        bnd (priv_resolveGuild (if truthy guild0 then guild0 else target0)) (\<lambda>guild.
        bnd (resolve_target target0) (\<lambda>target.
        bnd (resolve_path key avoidUnconfigurable) (\<lambda>(path, route).
        bnd (parse_field path (piece_default path) guild) (\<lambda>parsed.
        bnd (priv_reset target route parsed) (\<lambda>(result, parsedID).
        bnd (provider_write target result) (\<lambda>_.
        bnd (getp parsed ''data'') (\<lambda>v.
        ret (v, path)))))))))"

subsection \<open>Update\<close>

text \<open>
  \<^verbatim>\<open>if (cache.default === true) { cache = JSON.parse(JSON.stringify(cache)); delete cache.default; }\<close>
\<close>

definition clone_if_default :: "val \<Rightarrow> val m" where
  "clone_if_default cache =
     bnd (getp cache ''default'') (\<lambda>d.
     if d = VBool True then
       bnd (\<lambda>g. case json_clone (heap g) cache of
                   Inl e \<Rightarrow> (Inl e, g)
                 | Inr (c, h) \<Rightarrow> (Inr c, g\<lparr>heap := h\<rparr>)) (\<lambda>copy.
       bnd (delp copy ''default'') (\<lambda>_.
       ret copy))
     else ret cache)"

text \<open>What \<^verbatim>\<open>_updateOne\<close> and \<^verbatim>\<open>_updateArray\<close> return.\<close>

record update_result =
  ur_route :: "string list"
  ur_path :: piece
  ur_result :: val
  ur_parsedID :: val
  ur_parsed :: val
  ur_settings :: val

text \<open>
  The loop of \<^verbatim>\<open>Gateway#_updateOne\<close>, over \<^verbatim>\<open>i < route.length - 1\<close>, and the assignment
  \<^verbatim>\<open>cache[route[route.length - 1]] = parsedID\<close> after it; the result is the final \<^verbatim>\<open>cache\<close>.
  A missing intermediate object is created, and only an existing one is entered
  (\<^verbatim>\<open>if (...) cache[route[i]] = {}; else cache = cache[route[i]];\<close>). An empty route would
  assign to the key \<^verbatim>\<open>undefined\<close>.
\<close>

fun updateOne_loop :: "val \<Rightarrow> string list \<Rightarrow> val \<Rightarrow> val m" where
  "updateOne_loop cache (r # r' # rest) parsedID =
     bnd (getp cache r) (\<lambda>x.
     if x = VUndefined then
       bnd (new_obj (Obj ''Object'' [])) (\<lambda>ob.
       bnd (setp cache r ob) (\<lambda>_.
       updateOne_loop cache (r' # rest) parsedID))
     else updateOne_loop x (r' # rest) parsedID)"
| "updateOne_loop cache [r] parsedID = bnd (setp cache r parsedID) (\<lambda>_. ret cache)"
| "updateOne_loop cache [] parsedID = bnd (setp cache ''undefined'' parsedID) (\<lambda>_. ret cache)"

text \<open>
  The loop of \<^verbatim>\<open>Gateway#_updateArray\<close>: a missing intermediate object is created and entered
  (\<^verbatim>\<open>if (...) cache[route[i]] = {}; cache = cache[route[i]];\<close>).
\<close>

fun updateArray_loop :: "val \<Rightarrow> string list \<Rightarrow> val m" where
  "updateArray_loop cache (r # r' # rest) =
     bnd (getp cache r) (\<lambda>x.
     bnd (if x = VUndefined then bnd (new_obj (Obj ''Object'' [])) (setp cache r) else ret ()) (\<lambda>_.
     bnd (getp cache r) (\<lambda>next.
     updateArray_loop next (r' # rest))))"
| "updateArray_loop cache rest = ret cache"

text \<open>
  The array methods the gateway calls on \<^verbatim>\<open>cache\<close>. On an array they are
  \<^verbatim>\<open>Array.prototype.includes\<close>, \<^verbatim>\<open>push\<close>, \<^verbatim>\<open>indexOf\<close> and \<^verbatim>\<open>splice(index, 1)\<close>; a plain object, a
  number or a boolean has no such method, so the call is a TypeError.
\<close>

definition method_target :: "string \<Rightarrow> val \<Rightarrow> (nat \<times> val list) m" where
  "method_target name v g =
     (case v of
        VUndefined \<Rightarrow> (Inl (TypeError (''Cannot read property '' @ name @ '' of undefined'')), g)
      | VNull \<Rightarrow> (Inl (TypeError (''Cannot read property '' @ name @ '' of null'')), g)
      | VBool _ \<Rightarrow> (Inl (TypeError (''cache.'' @ name @ '' is not a function'')), g)
      | VNum _ \<Rightarrow> (Inl (TypeError (''cache.'' @ name @ '' is not a function'')), g)
      | VStr _ \<Rightarrow> (Inl (Unmodelled ''method of a string''), g)
      | VRef a \<Rightarrow>
          (if a < length (heap g) then
             (case heap g ! a of
                Obj _ _ \<Rightarrow> (Inl (TypeError (''cache.'' @ name @ '' is not a function'')), g)
              | Arr xs \<Rightarrow> (Inr (a, xs), g))
           else (Inl (Unmodelled ''dangling reference''), g)))"

definition array_includes :: "val \<Rightarrow> val \<Rightarrow> bool m" where
  "array_includes cache x = bnd (method_target ''includes'' cache) (\<lambda>(a, xs). ret (x \<in> set xs))"

definition array_push :: "val \<Rightarrow> val \<Rightarrow> unit m" where
  "array_push cache x =
     bnd (method_target ''push'' cache) (\<lambda>(a, xs) g.
       (Inr (), g\<lparr>heap := (heap g)[a := Arr (xs @ [x])]\<rparr>))"

fun index_of :: "'a \<Rightarrow> 'a list \<Rightarrow> nat option" where
  "index_of x [] = None"
| "index_of x (y # ys) = (if x = y then Some 0 else map_option Suc (index_of x ys))"

text \<open>\<^verbatim>\<open>cache.indexOf(x)\<close>; \<^verbatim>\<open>None\<close> is \<^verbatim>\<open>-1\<close>.\<close>

definition array_indexOf :: "val \<Rightarrow> val \<Rightarrow> nat option m" where
  "array_indexOf cache x = bnd (method_target ''indexOf'' cache) (\<lambda>(a, xs). ret (index_of x xs))"

definition array_splice1 :: "val \<Rightarrow> nat \<Rightarrow> unit m" where
  "array_splice1 cache i =
     bnd (method_target ''splice'' cache) (\<lambda>(a, xs) g.
       (Inr (), g\<lparr>heap := (heap g)[a := Arr (take i xs @ drop (Suc i) xs)]\<rparr>))"

text \<open>\<^verbatim>\<open>throw guild.language.get('COMMAND_CONF_KEY_NOT_ARRAY')\<close>.\<close>

definition throw_language :: "val \<Rightarrow> string \<Rightarrow> 'a m" where
  "throw_language guild k =
     bnd (getp guild ''language'') (\<lambda>l.
     if l = VUndefined \<or> l = VNull then throw (TypeError ''Cannot read property get of undefined'')
     else throw (LanguageKey k))"

text \<open>\<^verbatim>\<open>Gateway#_updateArray(target, action, key, value, guild, avoidUnconfigurable)\<close>.\<close>

definition priv_updateArray ::
  "val \<Rightarrow> string \<Rightarrow> val \<Rightarrow> val \<Rightarrow> val \<Rightarrow> bool \<Rightarrow> update_result m" where
  "priv_updateArray target action key v guild avoidUnconfigurable =
     bnd (resolve_path key avoidUnconfigurable) (\<lambda>(path, route).
     if \<not> piece_array path then throw_language guild ''COMMAND_CONF_KEY_NOT_ARRAY''
     else
       bnd (parse_field path v guild) (\<lambda>parsed.
       bnd (getp parsed ''data'') (\<lambda>data.
       bnd (\<lambda>g. (unwrap_id (heap g) data, g)) (\<lambda>parsedID.
       bnd (fetchEntry target) (\<lambda>fetched.
       bnd (clone_if_default fetched) (\<lambda>fullObject.
       bnd (updateArray_loop fullObject route) (\<lambda>cache.
       bnd (if action = ''add'' then
              bnd (array_includes cache parsedID) (\<lambda>present.
              if present then throw (ValueExists parsedID (piece_path path))
              else array_push cache parsedID)
            else
              bnd (array_indexOf cache parsedID) (\<lambda>index.
              case index of
                None \<Rightarrow> throw (ValueMissing parsedID (piece_path path))
              | Some i \<Rightarrow> array_splice1 cache i)) (\<lambda>_.
       bnd (cache_set target fullObject) (\<lambda>_.
       ret \<lparr>ur_route = route, ur_path = path, ur_result = cache, ur_parsedID = parsedID,
            ur_parsed = parsed, ur_settings = fullObject\<rparr>)))))))))"

text \<open>\<^verbatim>\<open>Gateway#_updateOne(target, key, value, guild, avoidUnconfigurable)\<close>.\<close>

definition priv_updateOne :: "val \<Rightarrow> val \<Rightarrow> val \<Rightarrow> val \<Rightarrow> bool \<Rightarrow> update_result m" where
  "priv_updateOne target key v guild avoidUnconfigurable =
     bnd (resolve_path key avoidUnconfigurable) (\<lambda>(path, route).
     if piece_array path then priv_updateArray target ''add'' key v guild avoidUnconfigurable
     else
       bnd (parse_field path v guild) (\<lambda>parsed.
       bnd (getp parsed ''data'') (\<lambda>data.
       bnd (\<lambda>g. (unwrap_id (heap g) data, g)) (\<lambda>parsedID.
       bnd (fetchEntry target) (\<lambda>fetched.
       bnd (clone_if_default fetched) (\<lambda>fullObject.
       bnd (updateOne_loop fullObject route parsedID) (\<lambda>cache.
       bnd (cache_set target fullObject) (\<lambda>_.
       ret \<lparr>ur_route = route, ur_path = path, ur_result = cache, ur_parsedID = parsedID,
            ur_parsed = parsed, ur_settings = fullObject\<rparr>))))))))"

text \<open>\<^verbatim>\<open>Gateway#updateOne(target, key, value, guild = null, avoidUnconfigurable = false)\<close>.\<close>

definition updateOne :: "val \<Rightarrow> val \<Rightarrow> val \<Rightarrow> val \<Rightarrow> bool \<Rightarrow> (val \<times> piece) m" where
  "updateOne target0 key v guild0 avoidUnconfigurable =
     (if \<not> is_string key then
        throw (TypeError (''The argument '' @ quoted ''key'' @ '' for Gateway#updateOne only accepts strings.''))
      else
        bnd (priv_resolveGuild (if truthy guild0 then guild0 else target0)) (\<lambda>guild.
        bnd (resolve_target target0) (\<lambda>target.
        bnd (priv_updateOne target key v guild avoidUnconfigurable) (\<lambda>r.
        bnd (provider_write target (ur_settings r)) (\<lambda>_.
        bnd (getp (ur_parsed r) ''data'') (\<lambda>data.
        ret (data, ur_path r)))))))"

text \<open>
  \<^verbatim>\<open>Gateway#updateArray(target, action, key, value, guild = null, avoidUnconfigurable = false)\<close>.
\<close>

definition updateArray ::
  "val \<Rightarrow> string \<Rightarrow> val \<Rightarrow> val \<Rightarrow> val \<Rightarrow> bool \<Rightarrow> (val \<times> piece) m" where
  "updateArray target0 action key v guild0 avoidUnconfigurable =
     (if \<not> is_string key then
        throw (TypeError (''The argument '' @ quoted ''key'' @ '' for Gateway#updateArray only accepts strings.''))
      else
        bnd (priv_resolveGuild (if truthy guild0 then guild0 else target0)) (\<lambda>guild.
        if action \<noteq> ''add'' \<and> action \<noteq> ''remove'' then
          throw (TypeError (''The argument '' @ quoted ''action'' @ '' for Gateway#updateArray only accepts the strings '' @ quoted ''add'' @ '' and '' @ quoted ''remove'' @ ''.''))
        else
          bnd (resolve_target target0) (\<lambda>target.
          bnd (priv_updateArray target action key v guild avoidUnconfigurable) (\<lambda>r.
          bnd (provider_write target (ur_settings r)) (\<lambda>_.
          bnd (getp (ur_parsed r) ''data'') (\<lambda>data.
          ret (data, ur_path r)))))))"

section \<open>Schema operations\<close>

text \<open>
  A \<^verbatim>\<open>Schema\<close> method runs on a folder of the gateway's schema; the folder is named by the
  keys that lead to it from the root (\<^verbatim>\<open>[]\<close> is \<^verbatim>\<open>manager.schema\<close> itself).
\<close>

fun folder_at :: "folder \<Rightarrow> string list \<Rightarrow> folder option" where
  "folder_at f [] = Some f"
| "folder_at f (k # ks) =
     (case lookup k (folder_children f) of
        Some (SubFolder c) \<Rightarrow> folder_at c ks
      | _ \<Rightarrow> None)"

fun folder_put :: "folder \<Rightarrow> string list \<Rightarrow> folder \<Rightarrow> folder" where
  "folder_put f [] f' = f'"
| "folder_put f (k # ks) f' =
     (case lookup k (folder_children f) of
        Some (SubFolder c) \<Rightarrow>
          Folder (folder_path f) (folder_defaults f) (folder_keys f) (folder_keyArray f)
            (assign k (SubFolder (folder_put c ks f')) (folder_children f))
      | _ \<Rightarrow> f)"

definition this_folder :: "string list \<Rightarrow> folder m" where
  "this_folder fp g =
     (case folder_at (schema g) fp of
        None \<Rightarrow> (Inl (Unmodelled ''the receiver is not a folder of the schema''), g)
      | Some f \<Rightarrow> (Inr f, g))"

definition modify_folder :: "string list \<Rightarrow> (folder \<Rightarrow> folder) \<Rightarrow> unit m" where
  "modify_folder fp change =
     bnd (this_folder fp) (\<lambda>f g.
       (Inr (), g\<lparr>schema := folder_put (schema g) fp (change f)\<rparr>))"

text \<open>
  \<^verbatim>\<open>typeof this[key] !== 'undefined'\<close> on a \<^verbatim>\<open>Schema\<close> instance: true for an attached child,
  and for every member the instance has anyway (the properties its constructor defines, the
  methods of the class, the members of \<^verbatim>\<open>Object.prototype\<close>).
\<close>

definition schema_members :: "string list" where
  "schema_members =
     [''client'', ''manager'', ''path'', ''type'', ''defaults'', ''keys'', ''keyArray'',
      ''constructor'', ''addFolder'', ''removeFolder'', ''hasKey'', ''addKey'', ''_addKey'',
      ''removeKey'', ''_removeKey'', ''force'', ''toJSON'', ''getDefaults'', ''getSQL'',
      ''getKeys'', ''configurableKeys'', ''getValues'', ''getList'', ''_patch'',
      ''resolveString'', ''toString'', ''hasOwnProperty'', ''isPrototypeOf'',
      ''propertyIsEnumerable'', ''toLocaleString'', ''valueOf'', ''__proto__'',
      ''__defineGetter__'', ''__defineSetter__'', ''__lookupGetter__'', ''__lookupSetter__'']"

definition has_member :: "folder \<Rightarrow> string \<Rightarrow> bool" where
  "has_member f key = (key \<in> set schema_members \<or> lookup key (folder_children f) \<noteq> None)"

text \<open>\<^verbatim>\<open>`${this.path === '' ? '' : `${this.path}.`}${key}`\<close>.\<close>

definition child_path :: "folder \<Rightarrow> string \<Rightarrow> string" where
  "child_path f key = (if folder_path f = [] then [] else folder_path f @ ''.'') @ key"

text \<open>
  \<^verbatim>\<open>keyArray.sort((a, b) => a.localeCompare(b))\<close>: a stable sort by the comparator.
\<close>

fun insert_by :: "(string \<Rightarrow> string \<Rightarrow> int) \<Rightarrow> string \<Rightarrow> string list \<Rightarrow> string list" where
  "insert_by c x [] = [x]"
| "insert_by c x (y # ys) = (if c x y \<le> 0 then x # y # ys else y # insert_by c x ys)"

fun sort_by :: "(string \<Rightarrow> string \<Rightarrow> int) \<Rightarrow> string list \<Rightarrow> string list" where
  "sort_by c [] = []"
| "sort_by c (x # xs) = insert_by c x (sort_by c xs)"

subsection \<open>Fields\<close>

text \<open>
  The options object of \<^verbatim>\<open>addKey\<close> and of a field declaration; an absent option is
  \<^verbatim>\<open>undefined\<close>.
\<close>

record options =
  o_type :: val
  o_default :: val
  o_min :: val
  o_max :: val
  o_array :: val
  o_configurable :: val

text \<open>
  Modelled from the spec: the constructor of \<^verbatim>\<open>SchemaPiece\<close> is not among the sources. The
  array flag is false when absent, the configurable flag true when absent; the default of
  an array field is an empty array, of a boolean field \<^verbatim>\<open>false\<close>, of any other field
  \<^verbatim>\<open>null\<close>, unless the options give one.
\<close>

definition new_SchemaPiece :: "options \<Rightarrow> string \<Rightarrow> string \<Rightarrow> piece m" where
  "new_SchemaPiece opts pth key =
     (case o_type opts of
        VStr ty \<Rightarrow>
          (case (if o_array opts = VUndefined then VBool False else o_array opts) of
             VBool arr \<Rightarrow>
               (case (if o_configurable opts = VUndefined then VBool True else o_configurable opts) of
                  VBool conf \<Rightarrow>
                    bnd (if o_default opts \<noteq> VUndefined then ret (o_default opts)
                         else if arr then new_obj (Arr [])
                         else if ty = ''boolean'' then ret (VBool False)
                         else ret VNull) (\<lambda>d.
                    ret \<lparr>piece_path = pth, piece_key = key, piece_type = ty, piece_array = arr,
                         piece_default = d,
                         piece_min = (if o_min opts = VUndefined then VNull else o_min opts),
                         piece_max = (if o_max opts = VUndefined then VNull else o_max opts),
                         piece_configurable = conf\<rparr>)
                | _ \<Rightarrow> throw (Unmodelled ''SchemaPiece: configurable is not a boolean''))
           | _ \<Rightarrow> throw (Unmodelled ''SchemaPiece: array is not a boolean''))
      | _ \<Rightarrow> throw (Unmodelled ''SchemaPiece: type is not a string''))"

text \<open>
  Modelled from the spec: \<^verbatim>\<open>SchemaPiece#toJSON\<close>, the declaration of a field (its type, array
  flag, default, bounds and configurable flag).
\<close>

definition piece_toJSON :: "heap \<Rightarrow> piece \<Rightarrow> error + json" where
  "piece_toJSON h p =
     (case to_json h (piece_default p) of
        Inl e \<Rightarrow> Inl e
      | Inr d \<Rightarrow>
          (case to_json h (piece_min p) of
             Inl e \<Rightarrow> Inl e
           | Inr mn \<Rightarrow>
               (case to_json h (piece_max p) of
                  Inl e \<Rightarrow> Inl e
                | Inr mx \<Rightarrow>
                    Inr (JObj [(''type'', JStr (piece_type p)), (''array'', JBool (piece_array p)),
                               (''default'', d), (''min'', mn), (''max'', mx),
                               (''configurable'', JBool (piece_configurable p))]))))"

text \<open>
  \<^verbatim>\<open>Schema#toJSON\<close>: \<^verbatim>\<open>Object.assign({ type: 'Folder' }, ...keyArray.map(key => ({ [key]:
  this[key].toJSON() })))\<close>. A key of \<^verbatim>\<open>keyArray\<close> without an attached child is a TypeError.
\<close>

fun sequence_kvs :: "(string \<times> (error + 'a)) list \<Rightarrow> error + (string \<times> 'a) list" where
  "sequence_kvs [] = Inr []"
| "sequence_kvs ((k, Inl e) # _) = Inl e"
| "sequence_kvs ((k, Inr x) # kvs) =
     (case sequence_kvs kvs of Inl e \<Rightarrow> Inl e | Inr r \<Rightarrow> Inr ((k, x) # r))"

fun folder_toJSON :: "heap \<Rightarrow> folder \<Rightarrow> error + json"
  and node_toJSON :: "heap \<Rightarrow> node \<Rightarrow> error + json" where
  "folder_toJSON h (Folder pth d ks ka cs) =
     (let done = map (\<lambda>(k, n). (k, node_toJSON h n)) cs in
      case sequence_kvs
             (map (\<lambda>key. (key, case lookup key done of
                                  None \<Rightarrow> Inl (TypeError ''Cannot read property toJSON of undefined'')
                                | Some r \<Rightarrow> r)) ka) of
        Inl e \<Rightarrow> Inl e
      | Inr kjs \<Rightarrow> Inr (JObj (fold (\<lambda>(k, j). assign k j) kjs [(''type'', JStr ''Folder'')])))"
| "node_toJSON h (SubFolder f) = folder_toJSON h f"
| "node_toJSON h (Field p) = piece_toJSON h p"

text \<open>\<^verbatim>\<open>await fs.outputJSONAtomic(this.manager.filePath, this.manager.schema.toJSON())\<close>.\<close>

definition persist :: "unit m" where
  "persist g =
     (case folder_toJSON (heap g) (schema g) of
        Inl e \<Rightarrow> (Inl e, g)
      | Inr j \<Rightarrow> (Inr (), g\<lparr>schemaFile := Some j\<rparr>))"

subsection \<open>Construction\<close>

definition new_object :: "nat m" where
  "new_object g = (Inr (length (heap g)), g\<lparr>heap := heap g @ [Obj ''Object'' []]\<rparr>)"

definition from_json :: "json \<Rightarrow> val m" where
  "from_json j g = (case parse_json j (heap g) of (v, h) \<Rightarrow> (Inr v, g\<lparr>heap := h\<rparr>))"

definition option_of_json :: "(string \<times> json) list \<Rightarrow> string \<Rightarrow> val m" where
  "option_of_json kvs name =
     (case lookup name kvs of
        None \<Rightarrow> ret VUndefined
      | Some j \<Rightarrow> from_json j)"

text \<open>The options a declaration gives for a field.\<close>

definition options_of_json :: "(string \<times> json) list \<Rightarrow> options m" where
  "options_of_json kvs =
     bnd (option_of_json kvs ''type'') (\<lambda>ty.
     bnd (option_of_json kvs ''default'') (\<lambda>d.
     bnd (option_of_json kvs ''min'') (\<lambda>mn.
     bnd (option_of_json kvs ''max'') (\<lambda>mx.
     bnd (option_of_json kvs ''array'') (\<lambda>arr.
     bnd (option_of_json kvs ''configurable'') (\<lambda>conf.
     ret \<lparr>o_type = ty, o_default = d, o_min = mn, o_max = mx, o_array = arr,
          o_configurable = conf\<rparr>))))))"

text \<open>
  What one round of the loop of \<^verbatim>\<open>Schema#_patch\<close> does once the child is built:
  \<^verbatim>\<open>this[key] = child; this.defaults[key] = ...; this.keys.add(key); this.keyArray.push(key)\<close>.
\<close>

definition attach :: "folder \<Rightarrow> string \<Rightarrow> node \<Rightarrow> val \<Rightarrow> folder m" where
  "attach f key child d =
     bnd (setp (VRef (folder_defaults f)) key d) (\<lambda>_.
     ret (Folder (folder_path f) (folder_defaults f) (insert key (folder_keys f))
            (folder_keyArray f @ [key]) (assign key child (folder_children f))))"

text \<open>
  \<^verbatim>\<open>new Schema(client, manager, object, path)\<close> and the loop of \<^verbatim>\<open>Schema#_patch(object)\<close> over
  \<^verbatim>\<open>Object.keys(object)\<close>. The declaration \<^verbatim>\<open>object\<close> is read as JSON; a declaration without a
  \<^verbatim>\<open>type\<close> is a folder (the code writes \<^verbatim>\<open>type = 'Folder'\<close> back into the declaration, which
  nothing reads again). An entry that is not an object is skipped, \<^verbatim>\<open>null\<close> is an object
  whose \<^verbatim>\<open>type\<close> cannot be read. A declared key that is a member of the instance already
  would replace that member; this is not modelled.
\<close>

fun new_Schema :: "json \<Rightarrow> string \<Rightarrow> folder m"
  and patch_loop :: "(string \<times> json) list \<Rightarrow> folder \<Rightarrow> folder m" where
  "new_Schema object pth =
     bnd new_object (\<lambda>d.
     bnd (case object of
            JObj kvs \<Rightarrow> patch_loop kvs (Folder pth d {} [] [])
          | JNull \<Rightarrow> throw (TypeError ''Cannot convert undefined or null to object'')
          | JBool _ \<Rightarrow> ret (Folder pth d {} [] [])
          | JNum _ \<Rightarrow> ret (Folder pth d {} [] [])
          | _ \<Rightarrow> throw (Unmodelled ''declaration is a string or an array'')) (\<lambda>f g.
       (Inr (Folder (folder_path f) (folder_defaults f) (folder_keys f)
               (sort_by (localeCompare g) (folder_keyArray f)) (folder_children f)), g)))"
| "patch_loop [] f = ret f"
| "patch_loop ((key, JObj kvs) # rest) f =
     (if key \<in> set schema_members then throw (Unmodelled ''declared key is a member of Schema'')
      else if lookup ''type'' kvs = None \<or> lookup ''type'' kvs = Some (JStr ''Folder'') then
        bnd (new_Schema (JObj kvs) (child_path f key)) (\<lambda>child.
        bnd (attach f key (SubFolder child) (VRef (folder_defaults child))) (\<lambda>f'.
        patch_loop rest f'))
      else
        bnd (options_of_json kvs) (\<lambda>opts.
        bnd (new_SchemaPiece opts (child_path f key) key) (\<lambda>p.
        bnd (attach f key (Field p) (piece_default p)) (\<lambda>f'.
        patch_loop rest f'))))"
| "patch_loop ((key, JNull) # rest) f = throw (TypeError ''Cannot read property type of null'')"
| "patch_loop ((key, JArr _) # rest) f = throw (Unmodelled ''declaration is a string or an array'')"
| "patch_loop ((key, _) # rest) f = patch_loop rest f"

subsection \<open>Migration\<close>

text \<open>\<^verbatim>\<open>for (let i = 0; i < path.length; i++) object = object[path[i]]\<close>.\<close>

fun descend :: "val \<Rightarrow> string list \<Rightarrow> val m" where
  "descend object [] = ret object"
| "descend object (p # ps) = bnd (getp object p) (\<lambda>next. descend next ps)"

text \<open>The callback that \<^verbatim>\<open>Schema#force\<close> maps over the stored documents.\<close>

definition force_one :: "string \<Rightarrow> string \<Rightarrow> val \<Rightarrow> string list \<Rightarrow> val \<Rightarrow> unit m" where
  "force_one action key v pth obj =
     bnd (descend obj pth) (\<lambda>object.
     bnd (if action = ''delete'' then delp object key else setp object key v) (\<lambda>_.
     bnd (getp obj ''id'') (\<lambda>i.
     if truthy i then provider_write i obj else ret ())))"

text \<open>
  \<^verbatim>\<open>Promise.all(data.map(async (obj) => ...))\<close>: the callback runs for every document; one that
  throws yields a rejected promise and the others still run. The result is the first
  rejection, if any.
\<close>

fun force_each :: "(val \<Rightarrow> unit m) \<Rightarrow> val list \<Rightarrow> error option \<Rightarrow> error option m" where
  "force_each f [] first g = (Inr first, g)"
| "force_each f (obj # rest) first g =
     (case f obj g of
        (Inl e, g') \<Rightarrow> force_each f rest (if first = None then Some e else first) g'
      | (Inr _, g') \<Rightarrow> force_each f rest first g')"

text \<open>
  \<^verbatim>\<open>Schema#force(action, key, schemaPiece)\<close> on the folder \<^verbatim>\<open>fp\<close>. The branch for
  \<^verbatim>\<open>manager.sql\<close> calls \<^verbatim>\<open>updateColumns\<close> of the SQL gateway, which is not among the sources;
  the third argument is read in that branch only.
\<close>

definition force :: "string list \<Rightarrow> string \<Rightarrow> string \<Rightarrow> unit m" where
  "force fp action key =
     bnd (\<lambda>g. (Inr (sql g), g)) (\<lambda>is_sql.
     if is_sql then throw (Unmodelled ''GatewaySQL#updateColumns'')
     else
       bnd provider_getAll (\<lambda>data.
       bnd (this_folder fp) (\<lambda>f.
       bnd (if action = ''add'' then getp (VRef (folder_defaults f)) key else ret VNull) (\<lambda>v.
       bnd (force_each (force_one action key v (split_dot (folder_path f))) data None) (\<lambda>first.
       case first of
         None \<Rightarrow> ret ()
       | Some e \<Rightarrow> throw e)))))"

subsection \<open>Adding and removing\<close>

definition current_schema :: "folder m" where
  "current_schema g = (Inr (schema g), g)"

text \<open>\<^verbatim>\<open>Schema#addFolder(key, object = {}, force = true)\<close>; \<^verbatim>\<open>keys\<close> and \<^verbatim>\<open>keyArray\<close> are
  extended before the folder is built, and \<^verbatim>\<open>keyArray\<close> is not sorted here.\<close>

definition addFolder :: "string list \<Rightarrow> string \<Rightarrow> json \<Rightarrow> bool \<Rightarrow> folder m" where
  "addFolder fp key object frc =
     bnd (this_folder fp) (\<lambda>f.
     if has_member f key then
       throw (Thrown (''The key '' @ key @ '' already exists in the current schema.''))
     else
       bnd (modify_folder fp (\<lambda>f. Folder (folder_path f) (folder_defaults f)
              (insert key (folder_keys f)) (folder_keyArray f @ [key]) (folder_children f))) (\<lambda>_.
       bnd (new_Schema object (child_path f key)) (\<lambda>child.
       bnd (modify_folder fp (\<lambda>f. Folder (folder_path f) (folder_defaults f) (folder_keys f)
              (folder_keyArray f) (assign key (SubFolder child) (folder_children f)))) (\<lambda>_.
       bnd (setp (VRef (folder_defaults f)) key (VRef (folder_defaults child))) (\<lambda>_.
       bnd persist (\<lambda>_.
       bnd (if frc then force fp ''add'' key else ret ()) (\<lambda>_.
       current_schema)))))))"

text \<open>\<^verbatim>\<open>Schema#_removeKey(key)\<close>.\<close>

definition priv_removeKey :: "string list \<Rightarrow> string \<Rightarrow> unit m" where
  "priv_removeKey fp key =
     bnd (this_folder fp) (\<lambda>f.
     case index_of key (folder_keyArray f) of
       None \<Rightarrow> throw (ErrorObj (''The key '' @ quoted key @ '' does not exist.''))
     | Some index \<Rightarrow>
         bnd (modify_folder fp (\<lambda>f. Folder (folder_path f) (folder_defaults f)
                (folder_keys f - {key})
                (take index (folder_keyArray f) @ drop (Suc index) (folder_keyArray f))
                (remove key (folder_children f)))) (\<lambda>_.
         delp (VRef (folder_defaults f)) key))"

text \<open>\<^verbatim>\<open>Schema#removeFolder(key, force = true)\<close>.\<close>

definition removeFolder :: "string list \<Rightarrow> string \<Rightarrow> bool \<Rightarrow> folder m" where
  "removeFolder fp key frc =
     bnd (this_folder fp) (\<lambda>f.
     if key \<notin> folder_keys f then
       throw (ErrorObj (''The key '' @ key @ '' does not exist in the current schema.''))
     else
       (case lookup key (folder_children f) of
          None \<Rightarrow> throw (TypeError ''Cannot read property type of undefined'')
        | Some child \<Rightarrow>
            if node_type child \<noteq> ''Folder'' then
              throw (ErrorObj (''The key '' @ key @ '' is not Folder type.''))
            else
              bnd (priv_removeKey fp key) (\<lambda>_.
              bnd persist (\<lambda>_.
              bnd (if frc then force fp ''delete'' key else ret ()) (\<lambda>_.
              current_schema)))))"

text \<open>\<^verbatim>\<open>Schema#hasKey(key)\<close>.\<close>

definition hasKey :: "folder \<Rightarrow> string \<Rightarrow> bool" where
  "hasKey f key = (key \<in> folder_keys f)"

text \<open>\<^verbatim>\<open>Schema#removeKey(key, force = true)\<close>.\<close>

definition removeKey :: "string list \<Rightarrow> string \<Rightarrow> bool \<Rightarrow> folder m" where
  "removeKey fp key frc =
     bnd (this_folder fp) (\<lambda>f.
     if \<not> hasKey f key then
       throw (Thrown (''The key '' @ key @ '' does not exist in the current schema.''))
     else
       bnd (priv_removeKey fp key) (\<lambda>_.
       bnd persist (\<lambda>_.
       bnd (if frc then force fp ''delete'' key else ret ()) (\<lambda>_.
       current_schema))))"

text \<open>\<^verbatim>\<open>Schema#_addKey(key, options)\<close>.\<close>

definition priv_addKey :: "string list \<Rightarrow> string \<Rightarrow> options \<Rightarrow> unit m" where
  "priv_addKey fp key opts =
     bnd (\<lambda>g. (Inr (localeCompare g), g)) (\<lambda>compare.
     bnd (modify_folder fp (\<lambda>f. Folder (folder_path f) (folder_defaults f)
            (insert key (folder_keys f)) (sort_by compare (folder_keyArray f @ [key]))
            (folder_children f))) (\<lambda>_.
     bnd (this_folder fp) (\<lambda>f.
     bnd (new_SchemaPiece opts (child_path f key) key) (\<lambda>p.
     bnd (modify_folder fp (\<lambda>f. Folder (folder_path f) (folder_defaults f) (folder_keys f)
            (folder_keyArray f) (assign key (Field p) (folder_children f)))) (\<lambda>_.
     setp (VRef (folder_defaults f)) key (o_default opts))))))"

text \<open>\<^verbatim>\<open>s.toLowerCase()\<close>, on the letters A to Z.\<close>

definition toLowerCase :: "string \<Rightarrow> string" where
  "toLowerCase s =
     map (\<lambda>c. let n = (of_char c :: nat) in if 65 \<le> n \<and> n \<le> 90 then char_of (n + 32) else c) s"

text \<open>\<^verbatim>\<open>isNaN(v)\<close>: whether \<^verbatim>\<open>Number(v)\<close> is NaN.\<close>

definition js_isNaN :: "val \<Rightarrow> error + bool" where
  "js_isNaN v =
     (case v of
        VUndefined \<Rightarrow> Inr True
      | VNull \<Rightarrow> Inr False
      | VBool _ \<Rightarrow> Inr False
      | VNum _ \<Rightarrow> Inr False
      | VStr _ \<Rightarrow> Inl (Unmodelled ''number parsing of a string'')
      | VRef _ \<Rightarrow> Inl (Unmodelled ''number conversion of an object''))"

definition is_boolean :: "val \<Rightarrow> bool" where
  "is_boolean v = (case v of VBool _ \<Rightarrow> True | _ \<Rightarrow> False)"

text \<open>\<^verbatim>\<open>Array.isArray(v)\<close>.\<close>

definition isArray :: "heap \<Rightarrow> val \<Rightarrow> bool" where
  "isArray h v =
     (case v of
        VRef a \<Rightarrow> a < length h \<and> (case h ! a of Arr _ \<Rightarrow> True | Obj _ _ \<Rightarrow> False)
      | _ \<Rightarrow> False)"

text \<open>
  The checks of \<^verbatim>\<open>min\<close> and \<^verbatim>\<open>max\<close>:
  \<^verbatim>\<open>if (typeof options.min !== 'undefined' && isNaN(options.min)) throw ...\<close>.
\<close>

definition check_number :: "val \<Rightarrow> string \<Rightarrow> unit m" where
  "check_number v name =
     (if v = VUndefined then ret ()
      else
        (case js_isNaN v of
           Inl e \<Rightarrow> throw e
         | Inr nan \<Rightarrow>
             if nan then throw (Thrown (''The option '' @ name @ '' must be a number.''))
             else ret ()))"

text \<open>
  The last check of \<^verbatim>\<open>addKey\<close>, which completes the options:
  \<^verbatim>\<open>if (options.array === true) { ... } else { ...; options.array = false; }\<close>.
\<close>

definition complete_options :: "options \<Rightarrow> options m" where
  "complete_options opts =
     (if o_array opts = VBool True then
        (if o_default opts = VUndefined then
           bnd (new_obj (Arr [])) (\<lambda>d. ret (opts\<lparr>o_default := d\<rparr>))
         else
           bnd (\<lambda>g. (Inr (isArray (heap g) (o_default opts)), g)) (\<lambda>is_arr.
           if \<not> is_arr then
             throw (Thrown ''The option default must be an array if the array option is set to true.'')
           else ret opts))
      else
        ret (opts\<lparr>o_default :=
                    (if o_default opts = VUndefined then
                       (if o_type opts = VStr ''boolean'' then VBool False else VNull)
                     else o_default opts),
                  o_array := VBool False\<rparr>))"

text \<open>
  \<^verbatim>\<open>Schema#addKey(key, options = null, force = true)\<close>; \<^verbatim>\<open>None\<close> is \<^verbatim>\<open>null\<close>. The code
  normalises the caller's options object in place; here the normalised options are new
  values.
\<close>

definition addKey :: "string list \<Rightarrow> string \<Rightarrow> options option \<Rightarrow> bool \<Rightarrow> folder m" where
  "addKey fp key options0 frc =
     bnd (this_folder fp) (\<lambda>f.
     if has_member f key then
       throw (Thrown (''The key '' @ key @ '' already exists in the current schema.''))
     else if options0 = None then
       throw (Thrown ''You must pass an options argument to this method.'')
     else if \<not> is_string (o_type (the options0)) then
       throw (Thrown ''The option type is required and must be a string.'')
     else
       bnd (ret ((the options0)\<lparr>o_type :=
              (case o_type (the options0) of VStr ty \<Rightarrow> VStr (toLowerCase ty) | x \<Rightarrow> x)\<rparr>)) (\<lambda>opts.
       bnd (\<lambda>g. (Inr (types g), g)) (\<lambda>supported.
       if o_type opts \<notin> VStr ` set supported then
         throw (Thrown (''The type '' @ (case o_type opts of VStr ty \<Rightarrow> ty | _ \<Rightarrow> []) @ '' is not supported.''))
       else
         bnd (check_number (o_min opts) ''min'') (\<lambda>_.
         bnd (check_number (o_max opts) ''max'') (\<lambda>_.
         if o_array opts \<noteq> VUndefined \<and> \<not> is_boolean (o_array opts) then
           throw (Thrown ''The option array must be a boolean.'')
         else if o_configurable opts \<noteq> VUndefined \<and> \<not> is_boolean (o_configurable opts) then
           throw (Thrown ''The option configurable must be a boolean.'')
         else
           bnd (complete_options opts) (\<lambda>opts'.
           bnd (priv_addKey fp key opts') (\<lambda>_.
           bnd persist (\<lambda>_.
           bnd (if frc then force fp ''add'' key else ret ()) (\<lambda>_.
           current_schema)))))))))"

section \<open>A gateway to run the operations on\<close>

text \<open>
  The collaborators: a target resolution that accepts every input as its own id, a parser
  that accepts every value (\<^verbatim>\<open>{ data: value }\<close>), and a comparison of strings by character
  code.
\<close>

definition id_validate :: "heap \<Rightarrow> val \<Rightarrow> error + val" where
  "id_validate h v = Inr v"

definition wrap_parse :: "piece \<Rightarrow> val \<Rightarrow> val \<Rightarrow> heap \<Rightarrow> (error + val) \<times> heap" where
  "wrap_parse p v guild h =
     (case alloc h (Obj ''Object'' [(''data'', v)]) of (w, h') \<Rightarrow> (Inr w, h'))"

fun code_compare :: "string \<Rightarrow> string \<Rightarrow> int" where
  "code_compare [] [] = 0"
| "code_compare [] (y # ys) = - 1"
| "code_compare (x # xs) [] = 1"
| "code_compare (x # xs) (y # ys) =
     (if (of_char x :: nat) < of_char y then - 1
      else if (of_char y :: nat) < of_char x then 1
      else code_compare xs ys)"

definition mk_piece :: "string \<Rightarrow> string \<Rightarrow> string \<Rightarrow> bool \<Rightarrow> val \<Rightarrow> piece" where
  "mk_piece pth key ty arr d =
     \<lparr>piece_path = pth, piece_key = key, piece_type = ty, piece_array = arr, piece_default = d,
      piece_min = VNull, piece_max = VNull, piece_configurable = True\<rparr>"

text \<open>
  The schema \<^verbatim>\<open>{ modlogs: textchannel, users: user[], channels: { modlogs: textchannel,
  other: string } }\<close>.
\<close>

definition ex_channels :: folder where
  "ex_channels =
     Folder ''channels'' 2 {''modlogs'', ''other''} [''modlogs'', ''other'']
       [(''modlogs'', Field (mk_piece ''channels.modlogs'' ''modlogs'' ''textchannel'' False VNull)),
        (''other'', Field (mk_piece ''channels.other'' ''other'' ''string'' False VNull))]"

definition ex_schema :: folder where
  "ex_schema =
     Folder [] 0 {''channels'', ''modlogs'', ''users''} [''channels'', ''modlogs'', ''users'']
       [(''modlogs'', Field (mk_piece ''modlogs'' ''modlogs'' ''textchannel'' False VNull)),
        (''users'', Field (mk_piece ''users'' ''users'' ''user'' True (VRef 1))),
        (''channels'', SubFolder ex_channels)]"

text \<open>
  The store: at 0 the \<^verbatim>\<open>defaults\<close> of the schema, at 1 the default of \<^verbatim>\<open>users\<close>, at 2 the
  \<^verbatim>\<open>defaults\<close> of \<^verbatim>\<open>channels\<close>; at 3 to 5 the cached document of \<^verbatim>\<open>g1\<close>; at 6 the cached
  document of \<^verbatim>\<open>g3\<close>, which has no \<^verbatim>\<open>channels\<close> object.
\<close>

definition ex_heap :: heap where
  "ex_heap =
     [Obj ''Object'' [(''modlogs'', VNull), (''users'', VRef 1), (''channels'', VRef 2)],
      Arr [],
      Obj ''Object'' [(''modlogs'', VNull), (''other'', VNull)],
      Obj ''Object'' [(''id'', VStr ''g1''), (''modlogs'', VStr ''123''), (''users'', VRef 4),
                      (''channels'', VRef 5)],
      Arr [VStr ''u1''],
      Obj ''Object'' [(''modlogs'', VStr ''456''), (''other'', VStr ''x'')],
      Obj ''Object'' [(''id'', VStr ''g3'')]]"

definition ex_g1 :: json where
  "ex_g1 =
     JObj [(''id'', JStr ''g1''), (''modlogs'', JStr ''123''), (''users'', JArr [JStr ''u1'']),
           (''channels'', JObj [(''modlogs'', JStr ''456''), (''other'', JStr ''x'')])]"

definition ex_gateway :: gateway where
  "ex_gateway =
     \<lparr>heap = ex_heap, schema = ex_schema,
      cache_table = [(VStr ''g1'', VRef 3), (VStr ''g3'', VRef 6)],
      provider_table = [(VStr ''g1'', ex_g1), (VStr ''g3'', JObj [(''id'', JStr ''g3'')])],
      sql = False, schemaFile = None, validate = id_validate, parse = wrap_parse, guilds = [],
      types = [''textchannel'', ''user'', ''string''], localeCompare = code_compare\<rparr>"

text \<open>A gateway with an empty schema and one stored document, \<^verbatim>\<open>{ id: 'g1' }\<close>.\<close>

definition new_gateway :: gateway where
  "new_gateway =
     \<lparr>heap = [Obj ''Object'' [], Obj ''Object'' [(''id'', VStr ''g1'')]],
      schema = Folder [] 0 {} [] [],
      cache_table = [(VStr ''g1'', VRef 1)],
      provider_table = [(VStr ''g1'', JObj [(''id'', JStr ''g1'')])],
      sql = False, schemaFile = None, validate = id_validate, parse = wrap_parse, guilds = [],
      types = [''textchannel'', ''user'', ''string''], localeCompare = code_compare\<rparr>"

definition text_options :: options where
  "text_options =
     \<lparr>o_type = VStr ''String'', o_default = VUndefined, o_min = VUndefined, o_max = VUndefined,
      o_array = VUndefined, o_configurable = VUndefined\<rparr>"

section \<open>Properties\<close>

subsection \<open>Operations that only read the state\<close>

lemma bnd_reads:
  assumes "snd (f g) = g"
  shows "bnd f k g = (case fst (f g) of Inl e \<Rightarrow> (Inl e, g) | Inr x \<Rightarrow> k x g)"
  using assms by (cases "f g") (auto simp: bnd_def split: sum.splits)

lemma priv_resolveGuild_state: "snd (priv_resolveGuild x g) = g"
  by (auto simp: priv_resolveGuild_def getp_def split: sum.splits val.splits)

lemma resolve_target_state: "snd (resolve_target x g) = g"
  by (auto simp: resolve_target_def split: sum.splits)

lemma getPath_is_string: "getPath g key avoid = Inr r \<Longrightarrow> is_string key"
  by (auto simp: getPath_def is_string_def split: val.splits)

lemma priv_updateOne_array:
  assumes "getPath g key avoid = Inr (path, route)" and "piece_array path"
  shows "priv_updateOne t key v gd avoid g = priv_updateArray t ''add'' key v gd avoid g"
  using assms by (simp add: priv_updateOne_def resolve_path_def bnd_def)

subsection \<open>The defaults marker\<close>

text \<open>
  C1. The claim: the \<^verbatim>\<open>default\<close> marker is never persisted, \<^verbatim>\<open>createEntry\<close> without data writes
  a document without the marker, \<^verbatim>\<open>reset\<close> clones a synthesized entry before it changes it,
  and no read or per-target change modifies the schema's \<^verbatim>\<open>defaults\<close> object.
  The code does otherwise. On the example gateway, where \<^verbatim>\<open>g2\<close> has no entry and the schema's
  \<^verbatim>\<open>defaults\<close> object is at address 0: a read of \<^verbatim>\<open>g2\<close> sets the marker on that object;
  \<^verbatim>\<open>createEntry('g2')\<close> stores a document with \<^verbatim>\<open>default: true\<close> in the provider;
  \<^verbatim>\<open>reset('g2', 'modlogs')\<close> writes the parsed value into the \<^verbatim>\<open>defaults\<close> object.
\<close>

theorem defaults_marker_persisted_and_template_changed:
  "heap ex_gateway ! 0 =
     Obj ''Object'' [(''modlogs'', VNull), (''users'', VRef 1), (''channels'', VRef 2)]
   \<and> heap (snd (getEntry (VStr ''g2'') ex_gateway)) ! 0 =
     Obj ''Object'' [(''modlogs'', VNull), (''users'', VRef 1), (''channels'', VRef 2),
                     (''default'', VBool True)]
   \<and> fst (createEntry (VStr ''g2'') VUndefined ex_gateway) = Inr True
   \<and> lookup (VStr ''g2'') (provider_table (snd (createEntry (VStr ''g2'') VUndefined ex_gateway))) =
     Some (JObj [(''modlogs'', JNull), (''users'', JArr []),
                 (''channels'', JObj [(''modlogs'', JNull), (''other'', JNull)]),
                 (''default'', JBool True)])
   \<and> heap (snd (reset (VStr ''g2'') (VStr ''modlogs'') VNull False ex_gateway)) ! 0 =
     Obj ''Object'' [(''modlogs'', VRef 7), (''users'', VRef 1), (''channels'', VRef 2),
                     (''default'', VBool True)]"
  by code_simp

subsection \<open>Reset\<close>

text \<open>
  C2. The claim: \<^verbatim>\<open>reset\<close> sets the parsed default at the resolved route inside the target's
  document and persists the whole updated document, so that the stored document is the
  prior one with only that leaf replaced.
  The code persists the value of \<^verbatim>\<open>cache\<close> after the loop of \<^verbatim>\<open>_reset\<close>, which is the object
  that holds the leaf. For the route \<^verbatim>\<open>channels.modlogs\<close> on the stored document of \<^verbatim>\<open>g1\<close> the
  provider ends with the \<^verbatim>\<open>channels\<close> object alone as the document, and the leaf is the
  parser's result object, not its \<^verbatim>\<open>data\<close>.
\<close>

theorem reset_persists_the_innermost_object:
  "lookup (VStr ''g1'') (provider_table ex_gateway) =
     Some (JObj [(''id'', JStr ''g1''), (''modlogs'', JStr ''123''), (''users'', JArr [JStr ''u1'']),
                 (''channels'', JObj [(''modlogs'', JStr ''456''), (''other'', JStr ''x'')])])
   \<and> fst (reset (VStr ''g1'') (VStr ''channels.modlogs'') VNull False ex_gateway) =
     Inr (VNull, mk_piece ''channels.modlogs'' ''modlogs'' ''textchannel'' False VNull)
   \<and> lookup (VStr ''g1'')
       (provider_table (snd (reset (VStr ''g1'') (VStr ''channels.modlogs'') VNull False ex_gateway))) =
     Some (JObj [(''modlogs'', JObj [(''data'', JNull)]), (''other'', JStr ''x'')])"
  by code_simp

subsection \<open>Migration\<close>

text \<open>
  C3. The claim: for every folder, the schema root included, \<^verbatim>\<open>force('add', key)\<close> writes the
  key's default into every stored document at the folder's path and rewrites the document.
  At the root the folder's path is the empty string, \<^verbatim>\<open>''.split('.')\<close> is \<^verbatim>\<open>['']\<close>, and the
  code reads \<^verbatim>\<open>obj['']\<close>, which is \<^verbatim>\<open>undefined\<close>, before it assigns: a TypeError for every
  document, and no document is rewritten. The same holds for \<^verbatim>\<open>'delete'\<close>. So
  \<^verbatim>\<open>addKey('b', { type: 'String' })\<close> on the root of a gateway with one stored document rejects
  and the document does not gain \<^verbatim>\<open>b\<close>.
\<close>

theorem force_at_the_root_throws:
  "fst (force [] ''add'' ''modlogs'' ex_gateway) =
     Inl (TypeError ''Cannot set property modlogs of undefined'')
   \<and> provider_table (snd (force [] ''add'' ''modlogs'' ex_gateway)) = provider_table ex_gateway
   \<and> fst (force [] ''delete'' ''modlogs'' ex_gateway) =
     Inl (TypeError ''Cannot convert undefined or null to object'')
   \<and> provider_table (snd (force [] ''delete'' ''modlogs'' ex_gateway)) = provider_table ex_gateway
   \<and> fst (addKey [] ''b'' (Some text_options) True new_gateway) =
     Inl (TypeError ''Cannot set property b of undefined'')
   \<and> provider_table (snd (addKey [] ''b'' (Some text_options) True new_gateway)) =
     [(VStr ''g1'', JObj [(''id'', JStr ''g1'')])]"
  by code_simp

subsection \<open>The keys of a folder\<close>

text \<open>
  C4. The claim: after every sequence of \<^verbatim>\<open>addKey\<close>, \<^verbatim>\<open>addFolder\<close>, \<^verbatim>\<open>removeKey\<close> and
  \<^verbatim>\<open>removeFolder\<close> the \<^verbatim>\<open>keys\<close> set and \<^verbatim>\<open>keyArray\<close> have the same members and \<^verbatim>\<open>keyArray\<close> is
  sorted alphabetically.
  \<^verbatim>\<open>addFolder\<close> pushes the key and does not sort (\<^verbatim>\<open>_addKey\<close> does): on the empty schema,
  \<^verbatim>\<open>addKey('b', ...)\<close> followed by \<^verbatim>\<open>addFolder('a')\<close> leaves \<^verbatim>\<open>keyArray = ['b', 'a']\<close>.
\<close>

theorem addFolder_leaves_keyArray_unsorted:
  "map_sum id (\<lambda>f. (folder_keys f, folder_keyArray f))
     (fst (bnd (addKey [] ''b'' (Some text_options) False)
               (\<lambda>_. addFolder [] ''a'' (JObj []) False) new_gateway)) =
     Inr ({''a'', ''b''}, [''b'', ''a''])
   \<and> localeCompare new_gateway ''b'' ''a'' = 1"
  by code_simp

subsection \<open>Sync\<close>

text \<open>
  C5. The claim: for an input that is not null, \<^verbatim>\<open>sync\<close> resolves the target, reads its
  document from the provider, stores it in the cache and resolves to \<^verbatim>\<open>true\<close>.
  The code reads the constant \<^verbatim>\<open>target\<close> in its own initialiser
  (\<^verbatim>\<open>const target = await this.validate(target)...\<close>): for every input that is a string, an
  object, a number or a boolean, and every gateway, the call throws a ReferenceError and the
  state is unchanged.
\<close>

theorem sync_of_one_target_throws:
  "sync (VStr s) g = (Inl (ReferenceError ''target''), g)
   \<and> sync (VRef a) g = (Inl (ReferenceError ''target''), g)
   \<and> sync (VNum n) g = (Inl (ReferenceError ''target''), g)
   \<and> sync (VBool b) g = (Inl (ReferenceError ''target''), g)"
  by (simp add: sync_def throw_def bnd_def)

subsection \<open>Update of a scalar field\<close>

text \<open>
  C6. The claim: \<^verbatim>\<open>updateOne\<close> creates any missing intermediate object along the route and sets
  the parsed value at the last segment, at the full depth of the route.
  The loop of \<^verbatim>\<open>_updateOne\<close> creates a missing object but enters only an existing one. The
  document of \<^verbatim>\<open>g3\<close> is \<^verbatim>\<open>{ id: 'g3' }\<close>; after \<^verbatim>\<open>updateOne('g3', 'channels.modlogs', '999')\<close>
  it is \<^verbatim>\<open>{ id: 'g3', channels: {}, modlogs: '999' }\<close>, in the provider and in the cache.
\<close>

theorem updateOne_sets_the_leaf_beside_a_created_folder:
  "fst (updateOne (VStr ''g3'') (VStr ''channels.modlogs'') (VStr ''999'') VNull False ex_gateway) =
     Inr (VStr ''999'', mk_piece ''channels.modlogs'' ''modlogs'' ''textchannel'' False VNull)
   \<and> lookup (VStr ''g3'')
       (provider_table (snd (updateOne (VStr ''g3'') (VStr ''channels.modlogs'') (VStr ''999'') VNull
          False ex_gateway))) =
     Some (JObj [(''id'', JStr ''g3''), (''channels'', JObj []), (''modlogs'', JStr ''999'')])
   \<and> (case snd (updateOne (VStr ''g3'') (VStr ''channels.modlogs'') (VStr ''999'') VNull False
                 ex_gateway) of g' \<Rightarrow>
        map_option (stringify (length (heap g')) (heap g')) (lookup (VStr ''g3'') (cache_table g'))) =
     Some (Some (JObj [(''id'', JStr ''g3''), (''channels'', JObj []), (''modlogs'', JStr ''999'')]))"
  by code_simp

subsection \<open>Path resolution\<close>

text \<open>
  C7. The claim: when a segment is not a child of the current node, \<^verbatim>\<open>getPath\<close> fails with an
  error that names the first missing segment.
  The message is built from \<^verbatim>\<open>route.slice(0, i)\<close>, the segments before the missing one: for
  the key \<^verbatim>\<open>foo\<close> it names the empty string, for \<^verbatim>\<open>channels.foo\<close> it names \<^verbatim>\<open>channels\<close>, which
  exists. (A folder at the end, and a field that is not configurable, fail as claimed.)
\<close>

theorem getPath_names_the_segments_before_the_missing_one:
  "getPath ex_gateway (VStr ''foo'') False =
     Inl (Thrown ''The key  does not exist in the current schema.'')
   \<and> getPath ex_gateway (VStr ''channels.foo'') False =
     Inl (Thrown ''The key channels does not exist in the current schema.'')
   \<and> getPath ex_gateway (VStr ''channels'') False = Inl (ChooseKey [''modlogs'', ''other''])
   \<and> getPath ex_gateway (VStr ''channels.other'') True =
     Inr (mk_piece ''channels.other'' ''other'' ''string'' False VNull, [''channels'', ''other''])"
  by code_simp

subsection \<open>Update of an array field\<close>

text \<open>
  C8. The claim: \<^verbatim>\<open>updateArray\<close> with \<^verbatim>\<open>'add'\<close> fails with a duplicate-value error when the
  value is in the stored array and appends it otherwise; with \<^verbatim>\<open>'remove'\<close> it fails with a
  missing-value error when the value is absent and removes its first occurrence otherwise.
  The loop of \<^verbatim>\<open>_updateArray\<close> stops one segment short, so \<^verbatim>\<open>cache\<close> is the object that holds
  the array, and \<^verbatim>\<open>cache.includes\<close> and \<^verbatim>\<open>cache.indexOf\<close> are not functions. With
  \<^verbatim>\<open>users = ['u1']\<close> stored for \<^verbatim>\<open>g1\<close>: adding \<^verbatim>\<open>u2\<close>, adding \<^verbatim>\<open>u1\<close> again and removing \<^verbatim>\<open>u1\<close> all
  throw a TypeError, and the stored document does not change.
\<close>

theorem updateArray_throws_TypeError:
  "fst (updateArray (VStr ''g1'') ''add'' (VStr ''users'') (VStr ''u2'') VNull False ex_gateway) =
     Inl (TypeError ''cache.includes is not a function'')
   \<and> fst (updateArray (VStr ''g1'') ''add'' (VStr ''users'') (VStr ''u1'') VNull False ex_gateway) =
     Inl (TypeError ''cache.includes is not a function'')
   \<and> fst (updateArray (VStr ''g1'') ''remove'' (VStr ''users'') (VStr ''u1'') VNull False ex_gateway) =
     Inl (TypeError ''cache.indexOf is not a function'')
   \<and> provider_table (snd (updateArray (VStr ''g1'') ''add'' (VStr ''users'') (VStr ''u2'') VNull False
        ex_gateway)) = provider_table ex_gateway
   \<and> provider_table (snd (updateArray (VStr ''g1'') ''remove'' (VStr ''users'') (VStr ''u1'') VNull False
        ex_gateway)) = provider_table ex_gateway
   \<and> heap (snd (updateArray (VStr ''g1'') ''add'' (VStr ''users'') (VStr ''u2'') VNull False
        ex_gateway)) ! 4 = Arr [VStr ''u1'']
   \<and> heap (snd (updateArray (VStr ''g1'') ''remove'' (VStr ''users'') (VStr ''u1'') VNull False
        ex_gateway)) ! 4 = Arr [VStr ''u1'']"
  by code_simp

text \<open>
  C9. For every gateway state, target, value, guild and configurability flag, and every key
  that \<^verbatim>\<open>getPath\<close> resolves to an array field: \<^verbatim>\<open>updateOne\<close> and \<^verbatim>\<open>updateArray\<close> with
  \<^verbatim>\<open>'add'\<close> return the same result (the same value and field, or the same error) and leave
  the same state (store, cache, provider).
\<close>

theorem updateOne_on_array_field_is_updateArray_add:
  assumes "getPath g key avoidUnconfigurable = Inr (path, route)" and "piece_array path"
  shows "updateOne target key v guild avoidUnconfigurable g =
         updateArray target ''add'' key v guild avoidUnconfigurable g"
proof -
  have str: "is_string key"
    using assms(1) by (rule getPath_is_string)
  have inner: "priv_updateOne t key v gd avoidUnconfigurable g =
      priv_updateArray t ''add'' key v gd avoidUnconfigurable g" for t gd
    using assms by (rule priv_updateOne_array)
  have step: "bnd (priv_updateOne t key v gd avoidUnconfigurable) k g =
      bnd (priv_updateArray t ''add'' key v gd avoidUnconfigurable) k g"
    for t gd and k :: "update_result \<Rightarrow> (val \<times> piece) m"
    by (simp add: bnd_def inner)
  show ?thesis
    unfolding updateOne_def updateArray_def
    using str
    by (simp add: bnd_reads [OF priv_resolveGuild_state] bnd_reads [OF resolve_target_state] step
        split: sum.splits)
qed

theorem updateOne_on_array_field_is_updateArray_add_witness:
  "getPath ex_gateway (VStr ''users'') False =
     Inr (mk_piece ''users'' ''users'' ''user'' True (VRef 1), [''users''])
   \<and> piece_array (mk_piece ''users'' ''users'' ''user'' True (VRef 1))
   \<and> updateOne (VStr ''g1'') (VStr ''users'') (VStr ''u2'') VNull False ex_gateway =
     updateArray (VStr ''g1'') ''add'' (VStr ''users'') (VStr ''u2'') VNull False ex_gateway"
proof -
  have resolved: "getPath ex_gateway (VStr ''users'') False =
      Inr (mk_piece ''users'' ''users'' ''user'' True (VRef 1), [''users''])"
    by code_simp
  have is_array: "piece_array (mk_piece ''users'' ''users'' ''user'' True (VRef 1))"
    by (simp add: mk_piece_def)
  show ?thesis
    using resolved is_array updateOne_on_array_field_is_updateArray_add [OF resolved is_array]
    by simp
qed

subsection \<open>Path resolution without a key\<close>

text \<open>
  C10. For every gateway and every flag, \<^verbatim>\<open>getPath\<close> with \<^verbatim>\<open>key = null\<close> (or with the key left
  out, which the default turns into \<^verbatim>\<open>null\<close>) throws a ReferenceError: it never returns a
  path and a route.
\<close>

theorem getPath_null_throws:
  "getPath g VNull avoidUnconfigurable = Inl (ReferenceError ''path'')
   \<and> getPath g VUndefined avoidUnconfigurable = Inl (ReferenceError ''path'')"
  by (simp add: getPath_def)

end
